theory Spec2Isabelle
  imports Main "HOL-Library.Multiset" "HOL-Library.Signed_Division"
begin

section \<open>Data model of services/directory.go\<close>

text \<open>
  Go's \<open>error\<close> interface: a value built by \<open>errors.New\<close> (or by a collaborator) carrying
  its message; a function returning \<open>error\<close> returns \<open>error option\<close>, \<open>None\<close> being nil.
\<close>

datatype error = errors_New string

text \<open>
  \<open>time.Time\<close> and \<open>time.Duration\<close> are integers counting nanoseconds (instants since the
  Unix epoch). An \<open>int64\<close> field is read as an integer: the code compares it and
  divides it by a constant, which cannot overflow.
\<close>

definition Second :: int where
  "Second = 1000000000"

definition Minute :: int where
  "Minute = 60 * Second"

definition Hour :: int where
  "Hour = 60 * Minute"

record DirectoryEntries =
  Name :: string
  Limit :: int
  PublicKey :: string
  Algorithm :: string
  Signature :: string
  Timestamp :: int

text \<open>A slice \<open>[]string\<close> is \<open>string list option\<close>: \<open>None\<close> is the nil slice.\<close>

record DirectoryEntriesResponse =
  Name :: string
  Entries :: "string list option"

record DirectoryEntry =
  Name :: string
  Entry :: string
  Mode :: string
  PublicKey :: string
  Algorithm :: string
  Signature :: string
  Timestamp :: int

text \<open>
  \<open>Response\<close> and \<open>confidential.ConfidentialEntry\<close> are declared outside the files at
  hand; the records hold the fields that directory.go reads and writes.
\<close>

record Response =
  Status :: string

record ConfidentialEntry =
  Prefix :: string
  Algorithm :: string
  PublicKey :: string
  Confidential :: bool
  ReadOnly :: bool

text \<open>A gossip message as the replicator sees it: its context and its raw payload.\<close>

record Message =
  Context :: string
  Payload :: string

text \<open>
  The collaborators that directory.go calls and that live outside it, as parameters:
  the policy registry and the signature primitive of package \<open>confidential\<close>, the
  \<open>soroban.Directory\<close> interface over a store of type \<open>'s\<close> (\<open>Add\<close> and \<open>Remove\<close> return the
  store they leave behind together with their error), and the payload parser of a
  gossip message.
\<close>

record 's externals =
  GetConfidentialInfo :: "string \<Rightarrow> string \<Rightarrow> ConfidentialEntry"
  confidential_VerifySignature ::
    "ConfidentialEntry \<Rightarrow> string \<Rightarrow> string \<Rightarrow> string \<Rightarrow> string \<Rightarrow> error option"
  TimeToLive :: "string \<Rightarrow> int"
  directory_List :: "'s \<Rightarrow> string \<Rightarrow> string list option \<times> error option"
  directory_Add :: "'s \<Rightarrow> string \<Rightarrow> string \<Rightarrow> int \<Rightarrow> 's \<times> error option"
  directory_Remove :: "'s \<Rightarrow> string \<Rightarrow> string \<Rightarrow> 's \<times> error option"
  ParsePayload :: "Message \<Rightarrow> error + DirectoryEntry"

section \<open>Formatting integers\<close>

text \<open>
  \<open>fmt.Sprintf\<close> with \<open>%d\<close> (and \<open>%v\<close> on an \<open>int64\<close>): decimal digits, most significant
  first, with a leading minus sign for a negative number.
\<close>

definition digit :: "nat \<Rightarrow> char" where
  "digit n = ''0123456789'' ! (n mod 10)"

function FormatUint :: "nat \<Rightarrow> string" where
  "FormatUint n = (if n < 10 then [digit n] else FormatUint (n div 10) @ [digit n])"
  by pat_completeness auto
termination
  by (relation "measure id") auto

declare FormatUint.simps [simp del]

definition Sprint_d :: "int \<Rightarrow> string" where
  "Sprint_d i = (if i < 0 then CHR ''-'' # FormatUint (nat (- i)) else FormatUint (nat i))"

section \<open>Signature verification\<close>

definition timeInRange :: "int \<Rightarrow> int \<Rightarrow> int \<Rightarrow> bool" where
  "timeInRange start end check = (start < check \<and> check < end)"

text \<open>
  \<open>(*DirectoryEntries).VerifySignature\<close>; \<open>now\<close> is the reading of \<open>time.Now()\<close>. Go's
  \<open>/\<close> on integers truncates toward zero, which is \<open>sdiv\<close>.
\<close>

definition DirectoryEntries_VerifySignature ::
  "'s externals \<Rightarrow> int \<Rightarrow> DirectoryEntries \<Rightarrow> ConfidentialEntry \<Rightarrow> error option" where
  "DirectoryEntries_VerifySignature ext now p info =
     (if length (Prefix info) = 0 \<or> length (ConfidentialEntry.Algorithm info) = 0
         \<or> length (ConfidentialEntry.PublicKey info) = 0
      then None
      else
        let timestamp = DirectoryEntries.Timestamp p;
            delta = 24 * Hour
        in if DirectoryEntries.PublicKey p \<noteq> ConfidentialEntry.PublicKey info
           then Some (errors_New ''PublicKey not allowed'')
           else if \<not> timeInRange (now - delta) (now + delta) timestamp
           then Some (errors_New ''timestamp not in time range'')
           else
             let message = DirectoryEntries.Name p @ ''.''
                             @ Sprint_d (DirectoryEntries.Timestamp p sdiv 1000000)
             in confidential_VerifySignature ext info (DirectoryEntries.PublicKey p) message
                  (DirectoryEntries.Algorithm p) (DirectoryEntries.Signature p))"

text \<open>\<open>(*DirectoryEntry).VerifySignature\<close>.\<close>

definition DirectoryEntry_VerifySignature ::
  "'s externals \<Rightarrow> int \<Rightarrow> DirectoryEntry \<Rightarrow> ConfidentialEntry \<Rightarrow> error option" where
  "DirectoryEntry_VerifySignature ext now p info =
     (if length (Prefix info) = 0 \<or> length (ConfidentialEntry.Algorithm info) = 0
         \<or> length (ConfidentialEntry.PublicKey info) = 0
      then None
      else if DirectoryEntry.PublicKey p \<noteq> ConfidentialEntry.PublicKey info
      then Some (errors_New ''PublicKey not allowed'')
      else
        let timestamp = DirectoryEntry.Timestamp p;
            delta = 24 * Hour
        in if \<not> timeInRange (now - delta) (now + delta) timestamp
           then Some (errors_New ''timestamp not in time range'')
           else
             let message = DirectoryEntry.Name p @ ''.''
                             @ Sprint_d (DirectoryEntry.Timestamp p) @ ''.'' @ Entry p
             in confidential_VerifySignature ext info (DirectoryEntry.PublicKey p) message
                  (DirectoryEntry.Algorithm p) (DirectoryEntry.Signature p))"

section \<open>Random sampling\<close>

text \<open>
  \<open>rand.Shuffle(n, swap)\<close> of math/rand: for \<open>i\<close> from \<open>n - 1\<close> down to \<open>1\<close> it draws
  \<open>j\<close> in \<open>[0, i]\<close> and calls \<open>swap(i, j)\<close>. The random source is the function \<open>rnd\<close>,
  whose value at \<open>i\<close> is the raw draw made at index \<open>i\<close>, reduced into range here.
\<close>

definition swap :: "nat \<Rightarrow> nat \<Rightarrow> 'a list \<Rightarrow> 'a list" where
  "swap i j xs = xs[i := xs ! j, j := xs ! i]"

fun Shuffle_loop :: "(nat \<Rightarrow> nat) \<Rightarrow> nat \<Rightarrow> 'a list \<Rightarrow> 'a list" where
  "Shuffle_loop rnd 0 xs = xs"
| "Shuffle_loop rnd (Suc k) xs =
     Shuffle_loop rnd k (swap (Suc k) (rnd (Suc k) mod (Suc k + 1)) xs)"

definition Shuffle :: "(nat \<Rightarrow> nat) \<Rightarrow> 'a list \<Rightarrow> 'a list" where
  "Shuffle rnd xs = Shuffle_loop rnd (length xs - 1) xs"

text \<open>\<open>len\<close> of a slice; the nil slice has length 0.\<close>

definition len :: "'a list option \<Rightarrow> nat" where
  "len s = (case s of None \<Rightarrow> 0 | Some xs \<Rightarrow> length xs)"

section \<open>Request handlers\<close>

text \<open>
  What a handler finds in the request context: the directory
  (\<open>internal.DirectoryFromContext\<close>) and the gossip session (\<open>internal.P2PFromContext\<close>),
  each possibly nil. The session is the sequence of messages handed to \<open>PublishJson\<close>
  so far, each with its context; a publish error is only logged by the callers, so
  \<open>PublishJson\<close> is the append.
\<close>

record 's request_context =
  directory :: "'s option"
  p2p :: "(string \<times> DirectoryEntry) list option"

text \<open>
  \<open>(*Directory).List\<close>. The handler writes through the pointer \<open>result\<close>, which the
  caller allocated: the model takes the value behind it and returns the value left there.
  The function is the same in services/directory.go and in the earlier revision of the
  file (up to the level of one log line).
\<close>

definition Directory_List ::
  "'s externals \<Rightarrow> int \<Rightarrow> (nat \<Rightarrow> nat) \<Rightarrow> 's request_context \<Rightarrow> DirectoryEntries
     \<Rightarrow> DirectoryEntriesResponse \<Rightarrow> DirectoryEntriesResponse" where
  "Directory_List ext now rnd ctx args result =
     (case directory ctx of
        None \<Rightarrow> result
      | Some d \<Rightarrow>
          let info = GetConfidentialInfo ext (DirectoryEntries.Name args)
                       (DirectoryEntries.PublicKey args);
              err = (if Confidential info
                     then DirectoryEntries_VerifySignature ext now args info else None)
          in (case err of
               Some e \<Rightarrow> result
             | None \<Rightarrow>
                 (case directory_List ext d (DirectoryEntries.Name args) of
                    (entries, Some e) \<Rightarrow> result
                  | (entries, None) \<Rightarrow>
                      let entries =
                            (if 0 < Limit args \<and> Limit args < int (len entries)
                             then map_option (\<lambda>xs. take (nat (Limit args)) (Shuffle rnd xs))
                                    entries
                             else entries);
                          entries = (if entries = None then Some [] else entries)
                      in \<lparr>DirectoryEntriesResponse.Name = DirectoryEntries.Name args,
                          Entries = entries\<rparr>)))"

definition addToDirectory ::
  "'s externals \<Rightarrow> 's \<Rightarrow> DirectoryEntry option \<Rightarrow> 's \<times> error option" where
  "addToDirectory ext d args =
     (case args of
        None \<Rightarrow> (d, Some (errors_New ''invalid args''))
      | Some a \<Rightarrow>
          directory_Add ext d (DirectoryEntry.Name a) (Entry a) (TimeToLive ext (Mode a)))"

definition removeFromDirectory ::
  "'s externals \<Rightarrow> 's \<Rightarrow> DirectoryEntry option \<Rightarrow> 's \<times> error option" where
  "removeFromDirectory ext d args =
     (case args of
        None \<Rightarrow> (d, Some (errors_New ''invalid args''))
      | Some a \<Rightarrow> directory_Remove ext d (DirectoryEntry.Name a) (Entry a))"

text \<open>\<open>(*Directory).Add\<close> of services/directory.go.\<close>

definition Directory_Add ::
  "'s externals \<Rightarrow> int \<Rightarrow> 's request_context \<Rightarrow> DirectoryEntry \<Rightarrow> Response
     \<Rightarrow> 's request_context \<times> Response" where
  "Directory_Add ext now ctx args result =
     (case directory ctx of
        None \<Rightarrow> (ctx, result)
      | Some d \<Rightarrow>
          (case p2p ctx of
             None \<Rightarrow> (ctx, result)
           | Some net \<Rightarrow>
               let info = GetConfidentialInfo ext (DirectoryEntry.Name args)
                            (DirectoryEntry.PublicKey args);
                   err = (if ReadOnly info
                          then DirectoryEntry_VerifySignature ext now args info else None)
               in (case err of
                    Some e \<Rightarrow> (ctx, \<lparr>Status = ''error''\<rparr>)
                  | None \<Rightarrow>
                      (case addToDirectory ext d (Some args) of
                         (d', Some e) \<Rightarrow> (ctx\<lparr>directory := Some d'\<rparr>, \<lparr>Status = ''error''\<rparr>)
                       | (d', None) \<Rightarrow>
                           (ctx\<lparr>directory := Some d',
                                p2p := Some (net @ [(''Directory.Add'', args)])\<rparr>,
                            \<lparr>Status = ''success''\<rparr>)))))"

text \<open>\<open>(*Directory).Remove\<close> of services/directory.go.\<close>

definition Directory_Remove ::
  "'s externals \<Rightarrow> int \<Rightarrow> 's request_context \<Rightarrow> DirectoryEntry \<Rightarrow> Response
     \<Rightarrow> 's request_context \<times> Response" where
  "Directory_Remove ext now ctx args result =
     (case directory ctx of
        None \<Rightarrow> (ctx, result)
      | Some d \<Rightarrow>
          let info = GetConfidentialInfo ext (DirectoryEntry.Name args)
                       (DirectoryEntry.PublicKey args);
              err = (if ReadOnly info
                     then DirectoryEntry_VerifySignature ext now args info else None)
          in (case err of
               Some e \<Rightarrow> (ctx, result)
             | None \<Rightarrow>
                 (case p2p ctx of
                    None \<Rightarrow> (ctx, result)
                  | Some net \<Rightarrow>
                      (case removeFromDirectory ext d (Some args) of
                         (d', err) \<Rightarrow>
                           (ctx\<lparr>directory := Some d',
                                p2p := Some (net @ [(''Directory.Remove'', args)])\<rparr>,
                            \<lparr>Status = (if err = None then ''success'' else ''error'')\<rparr>)))))"

text \<open>
  \<open>(*Directory).Add\<close> and \<open>(*Directory).Remove\<close> of the earlier revision of the file,
  which has no gossip session.
\<close>

definition Directory_Add_0 ::
  "'s externals \<Rightarrow> int \<Rightarrow> 's request_context \<Rightarrow> DirectoryEntry \<Rightarrow> Response
     \<Rightarrow> 's request_context \<times> Response" where
  "Directory_Add_0 ext now ctx args result =
     (case directory ctx of
        None \<Rightarrow> (ctx, result)
      | Some d \<Rightarrow>
          let info = GetConfidentialInfo ext (DirectoryEntry.Name args)
                       (DirectoryEntry.PublicKey args);
              err = (if ReadOnly info
                     then DirectoryEntry_VerifySignature ext now args info else None)
          in (case err of
               Some e \<Rightarrow> (ctx, \<lparr>Status = ''error''\<rparr>)
             | None \<Rightarrow>
                 (case directory_Add ext d (DirectoryEntry.Name args) (Entry args)
                         (TimeToLive ext (Mode args)) of
                    (d', Some e) \<Rightarrow> (ctx\<lparr>directory := Some d'\<rparr>, \<lparr>Status = ''error''\<rparr>)
                  | (d', None) \<Rightarrow>
                      (ctx\<lparr>directory := Some d'\<rparr>, \<lparr>Status = ''success''\<rparr>))))"

definition Directory_Remove_0 ::
  "'s externals \<Rightarrow> int \<Rightarrow> 's request_context \<Rightarrow> DirectoryEntry \<Rightarrow> Response
     \<Rightarrow> 's request_context \<times> Response" where
  "Directory_Remove_0 ext now ctx args result =
     (case directory ctx of
        None \<Rightarrow> (ctx, result)
      | Some d \<Rightarrow>
          let info = GetConfidentialInfo ext (DirectoryEntry.Name args)
                       (DirectoryEntry.PublicKey args);
              err = (if ReadOnly info
                     then DirectoryEntry_VerifySignature ext now args info else None)
          in (case err of
               Some e \<Rightarrow> (ctx, result)
             | None \<Rightarrow>
                 (case directory_Remove ext d (DirectoryEntry.Name args) (Entry args) of
                    (d', err) \<Rightarrow>
                      (ctx\<lparr>directory := Some d'\<rparr>,
                       \<lparr>Status = (if err = None then ''success'' else ''error'')\<rparr>))))"

section \<open>The replicator loop\<close>

text \<open>
  The variables of the loop of \<open>StartP2PDirectory\<close>, the directory it writes to, the
  messages it has handed to \<open>PublishJson\<close>, and whether it still runs: \<open>Exited\<close> is
  \<open>os.Exit(0)\<close>, \<open>Returned\<close> the return on \<open>ctx.Done()\<close>.
\<close>

datatype loop_status = Running | Exited | Returned

record 's replicator =
  timeoutDelay :: int
  lastHeartbeatTimestamp :: int
  store :: 's
  sent :: "(string \<times> DirectoryEntry) list"
  status :: loop_status

text \<open>
  The three cases of the \<open>select\<close>: a message on \<open>p2P.OnMessage\<close>, the expiry of
  \<open>time.After(30 * time.Second)\<close>, and \<open>ctx.Done()\<close>. An event comes with the clock
  reading that \<open>time.Now()\<close> and \<open>time.Since\<close> return while it is handled.
\<close>

datatype event = OnMessage Message | After30s | Done

text \<open>
  \<open>StartP2PDirectory\<close> up to the loop: \<open>None\<close> when it returns before the loop starts
  (no bootstrap, no room, no directory or no session), otherwise the state in which
  the loop is entered, once the session has signalled that it is ready.
\<close>

definition StartP2PDirectory ::
  "'s request_context \<Rightarrow> string \<Rightarrow> string \<Rightarrow> int \<Rightarrow> 's replicator option" where
  "StartP2PDirectory ctx bootstrap room now =
     (if length bootstrap = 0 then None
      else if length room = 0 then None
      else case directory ctx of
             None \<Rightarrow> None
           | Some d \<Rightarrow>
               (case p2p ctx of
                  None \<Rightarrow> None
                | Some net \<Rightarrow>
                    Some \<lparr>timeoutDelay = 15 * Minute, lastHeartbeatTimestamp = now,
                          store = d, sent = net, status = Running\<rparr>))"

text \<open>One iteration of the loop, on the event that the \<open>select\<close> received.\<close>

definition loop_body :: "'s externals \<Rightarrow> 's replicator \<Rightarrow> int \<times> event \<Rightarrow> 's replicator" where
  "loop_body ext s te =
     (case te of
        (now, OnMessage message) \<Rightarrow>
          (case ParsePayload ext message of
             Inl err \<Rightarrow> s
           | Inr args \<Rightarrow>
               if DirectoryEntry.Name args = ''p2p.heartbeat''
               then s\<lparr>timeoutDelay := 3 * Minute, lastHeartbeatTimestamp := now\<rparr>
               else if Context message = ''Directory.Add''
               then s\<lparr>store := fst (addToDirectory ext (store s) (Some args))\<rparr>
               else if Context message = ''Directory.Remove''
               then s\<lparr>store := fst (removeFromDirectory ext (store s) (Some args))\<rparr>
               else s)
      | (now, After30s) \<Rightarrow>
          if timeoutDelay s < now - lastHeartbeatTimestamp s
          then s\<lparr>status := Exited\<rparr>
          else s\<lparr>sent := sent s @
                   [(''Directory.Add'',
                     \<lparr>DirectoryEntry.Name = ''p2p.heartbeat'',
                      Entry = Sprint_d (now div Second),
                      Mode = ''short'',
                      DirectoryEntry.PublicKey = [],
                      DirectoryEntry.Algorithm = [],
                      DirectoryEntry.Signature = [],
                      DirectoryEntry.Timestamp = 0\<rparr>)]\<rparr>
      | (now, Done) \<Rightarrow> s\<lparr>status := Returned\<rparr>)"

text \<open>The loop over the events that arrive, for as long as it runs.\<close>

fun StartP2PDirectory_loop ::
  "'s externals \<Rightarrow> 's replicator \<Rightarrow> (int \<times> event) list \<Rightarrow> 's replicator" where
  "StartP2PDirectory_loop ext s [] = s"
| "StartP2PDirectory_loop ext s (e # es) =
     (if status s = Running then StartP2PDirectory_loop ext (loop_body ext s e) es else s)"

section \<open>A sample deployment\<close>

text \<open>
  Modelled from the spec: one instance of the collaborators, on which the handlers and the
  loop are evaluated. The policy table has the single prefix \<open>secure\<close>, pinned to the
  key \<open>PK1\<close>, confidential and read-only; every other namespace gets the default policy.
  The signature primitive of the sample accepts the message prefixed by \<open>signed:\<close>. The
  directory keeps its (key, value) pairs in a list, allows a value several times and
  refuses a time to live under one second. A payload is three comma-separated fields:
  name, entry and mode.
\<close>

definition secure_policy :: ConfidentialEntry where
  "secure_policy =
     \<lparr>Prefix = ''secure'', Algorithm = ''ed25519'', PublicKey = ''PK1'',
      Confidential = True, ReadOnly = True\<rparr>"

definition default_policy :: ConfidentialEntry where
  "default_policy =
     \<lparr>Prefix = [], Algorithm = [], PublicKey = [], Confidential = False, ReadOnly = False\<rparr>"

definition sample_GetConfidentialInfo :: "string \<Rightarrow> string \<Rightarrow> ConfidentialEntry" where
  "sample_GetConfidentialInfo name publicKey =
     (if take 6 name = ''secure'' then secure_policy else default_policy)"

definition sample_VerifySignature ::
  "ConfidentialEntry \<Rightarrow> string \<Rightarrow> string \<Rightarrow> string \<Rightarrow> string \<Rightarrow> error option" where
  "sample_VerifySignature info publicKey message algorithm signature =
     (if signature = ''signed:'' @ message then None
      else Some (errors_New ''invalid signature''))"

definition sample_TimeToLive :: "string \<Rightarrow> int" where
  "sample_TimeToLive mode = (if mode = ''short'' then 3 * Minute else 15 * Minute)"

definition memory_List ::
  "(string \<times> string) list \<Rightarrow> string \<Rightarrow> string list option \<times> error option" where
  "memory_List m key = (Some (map snd (filter (\<lambda>kv. fst kv = key) m)), None)"

definition memory_Add ::
  "(string \<times> string) list \<Rightarrow> string \<Rightarrow> string \<Rightarrow> int
     \<Rightarrow> (string \<times> string) list \<times> error option" where
  "memory_Add m key val ttl =
     (if ttl < Second then (m, Some (errors_New ''invalid TTL''))
      else (m @ [(key, val)], None))"

definition memory_Remove ::
  "(string \<times> string) list \<Rightarrow> string \<Rightarrow> string
     \<Rightarrow> (string \<times> string) list \<times> error option" where
  "memory_Remove m key val = (remove1 (key, val) m, None)"

fun fields :: "string \<Rightarrow> string \<Rightarrow> string list" where
  "fields acc [] = [rev acc]"
| "fields acc (c # cs) =
     (if c = CHR '','' then rev acc # fields [] cs else fields (c # acc) cs)"

definition sample_ParsePayload :: "Message \<Rightarrow> error + DirectoryEntry" where
  "sample_ParsePayload m =
     (case fields [] (Payload m) of
        [n, e, md] \<Rightarrow>
          Inr \<lparr>DirectoryEntry.Name = n, Entry = e, Mode = md,
               DirectoryEntry.PublicKey = [], DirectoryEntry.Algorithm = [],
               DirectoryEntry.Signature = [], DirectoryEntry.Timestamp = 0\<rparr>
      | _ \<Rightarrow> Inl (errors_New ''malformed payload''))"

definition sample :: "(string \<times> string) list externals" where
  "sample =
     \<lparr>GetConfidentialInfo = sample_GetConfidentialInfo,
      confidential_VerifySignature = sample_VerifySignature,
      TimeToLive = sample_TimeToLive,
      directory_List = memory_List,
      directory_Add = memory_Add,
      directory_Remove = memory_Remove,
      ParsePayload = sample_ParsePayload\<rparr>"

text \<open>
  Requests on the namespace \<open>secure.node\<close>, by claimed key, timestamp and signature, a
  policy that pins a key but names no algorithm, the random source that always draws 0,
  and a store with three values under \<open>pairing\<close>.
\<close>

definition sample_list_request :: "string \<Rightarrow> int \<Rightarrow> string \<Rightarrow> DirectoryEntries" where
  "sample_list_request key ts sg =
     \<lparr>DirectoryEntries.Name = ''secure.node'', Limit = 0,
      DirectoryEntries.PublicKey = key, DirectoryEntries.Algorithm = ''ed25519'',
      DirectoryEntries.Signature = sg, DirectoryEntries.Timestamp = ts\<rparr>"

definition sample_entry_request :: "string \<Rightarrow> int \<Rightarrow> string \<Rightarrow> DirectoryEntry" where
  "sample_entry_request key ts sg =
     \<lparr>DirectoryEntry.Name = ''secure.node'', Entry = ''v1'', Mode = ''short'',
      DirectoryEntry.PublicKey = key, DirectoryEntry.Algorithm = ''ed25519'',
      DirectoryEntry.Signature = sg, DirectoryEntry.Timestamp = ts\<rparr>"

definition pairing_list_request :: "int \<Rightarrow> DirectoryEntries" where
  "pairing_list_request limit =
     \<lparr>DirectoryEntries.Name = ''pairing'', Limit = limit,
      DirectoryEntries.PublicKey = [], DirectoryEntries.Algorithm = [],
      DirectoryEntries.Signature = [], DirectoryEntries.Timestamp = 0\<rparr>"

definition policy_without_algorithm :: ConfidentialEntry where
  "policy_without_algorithm =
     \<lparr>Prefix = ''secure'', Algorithm = [], PublicKey = ''PK1'',
      Confidential = True, ReadOnly = True\<rparr>"



definition zero_source :: "nat \<Rightarrow> nat" where
  "zero_source i = 0"

definition pairing_store :: "(string \<times> string) list" where
  "pairing_store =
     [(''pairing'', ''a''), (''pairing'', ''b''), (''other'', ''x''), (''pairing'', ''c'')]"

definition secure_context :: "(string \<times> string) list request_context" where
  "secure_context = \<lparr>directory = Some [(''secure.node'', ''v1'')], p2p = Some []\<rparr>"

text \<open>Whether an event of the loop is the arrival of a message.\<close>

fun is_message :: "event \<Rightarrow> bool" where
  "is_message (OnMessage m) = True"
| "is_message After30s = False"
| "is_message Done = False"

text \<open>
  Gossip messages of the sample: a heartbeat as the loop publishes it (under the context
  \<open>Directory.Add\<close>), an Add and a Remove on the namespace \<open>secure.node\<close>, and a message
  whose context is \<open>p2p.heartbeat\<close> while its payload is an ordinary entry; and the state
  in which the loop starts on \<open>secure_context\<close> at the instant 1700000000000000000.
\<close>

definition heartbeat_message :: Message where
  "heartbeat_message =
     \<lparr>Context = ''Directory.Add'', Payload = ''p2p.heartbeat,1700000000,short''\<rparr>"

definition add_message :: Message where
  "add_message = \<lparr>Context = ''Directory.Add'', Payload = ''secure.node,xyz,short''\<rparr>"

definition remove_message :: Message where
  "remove_message = \<lparr>Context = ''Directory.Remove'', Payload = ''secure.node,v1,short''\<rparr>"

definition stray_message :: Message where
  "stray_message = \<lparr>Context = ''p2p.heartbeat'', Payload = ''pairing,xyz,short''\<rparr>"

definition sample_replicator :: "(string \<times> string) list replicator" where
  "sample_replicator =
     \<lparr>timeoutDelay = 15 * Minute, lastHeartbeatTimestamp = 1700000000000000000,
      store = [(''secure.node'', ''v1'')], sent = [], status = Running\<rparr>"

section \<open>Auxiliary facts\<close>

lemmas sample_defs = sample_def sample_GetConfidentialInfo_def sample_VerifySignature_def
  sample_TimeToLive_def memory_List_def memory_Add_def memory_Remove_def
  sample_ParsePayload_def secure_policy_def default_policy_def

lemmas request_defs = sample_list_request_def sample_entry_request_def secure_context_def

lemmas durations = Second_def Minute_def Hour_def

lemmas message_defs = heartbeat_message_def add_message_def sample_replicator_def

lemma FormatUint_lt10: "n < 10 \<Longrightarrow> FormatUint n = [digit n]"
  by (subst FormatUint.simps) simp

lemma FormatUint_ge10: "10 \<le> n \<Longrightarrow> FormatUint n = FormatUint (n div 10) @ [digit n]"
  by (subst FormatUint.simps) simp






text \<open>The shuffle permutes the slice, whatever the random source draws.\<close>

lemma length_swap [simp]: "length (swap i j xs) = length xs"
  by (simp add: swap_def)

lemma mset_swap_list: "i < length xs \<Longrightarrow> j < length xs \<Longrightarrow> mset (swap i j xs) = mset xs"
  unfolding swap_def by (rule mset_swap)

lemma Shuffle_loop_perm: "k < length xs \<Longrightarrow> mset (Shuffle_loop rnd k xs) = mset xs"
proof (induction k arbitrary: xs)
  case 0
  show ?case by simp
next
  case (Suc k)
  have j: "rnd (Suc k) mod (Suc k + 1) < length xs"
  proof -
    have "rnd (Suc k) mod (Suc k + 1) < Suc k + 1" by simp
    with Suc.prems show ?thesis by linarith
  qed
  have "mset (Shuffle_loop rnd k (swap (Suc k) (rnd (Suc k) mod (Suc k + 1)) xs))
          = mset (swap (Suc k) (rnd (Suc k) mod (Suc k + 1)) xs)"
    using Suc.prems by (intro Suc.IH) simp
  also have "\<dots> = mset xs"
    using Suc.prems j by (rule mset_swap_list)
  finally show ?case by simp
qed

lemma Shuffle_perm: "mset (Shuffle rnd xs) = mset xs"
proof (cases xs)
  case Nil
  then show ?thesis by (simp add: Shuffle_def)
next
  case (Cons y ys)
  then have "length xs - 1 < length xs" by simp
  then show ?thesis unfolding Shuffle_def by (rule Shuffle_loop_perm)
qed

lemma length_Shuffle: "length (Shuffle rnd xs) = length xs"
  using Shuffle_perm [of rnd xs] by (metis size_mset)

lemma mset_take_le: "mset (take n zs) \<subseteq># mset zs"
proof -
  have "mset zs = mset (take n zs) + mset (drop n zs)"
    by (metis append_take_drop_id mset_append)
  then show ?thesis by simp
qed

section \<open>Signature verification: order of the checks, messages, time window\<close>

text \<open>
  C5, as stated, at a concrete input: the policy \<open>policy_without_algorithm\<close> has a prefix
  and pins the key \<open>PK1\<close>, so it is not a policy with empty prefix, algorithm and public
  key; the request claims the key \<open>PK2\<close>. Verification does not fail with the
  key-mismatch error: it succeeds, because one empty field is enough for the first test.
\<close>

theorem VerifySignature_order_counterexample:
  "Prefix policy_without_algorithm = ''secure''
   \<and> ConfidentialEntry.PublicKey policy_without_algorithm = ''PK1''
   \<and> DirectoryEntry.PublicKey (sample_entry_request ''PK2'' 1700000000000000000 ''forged'')
       = ''PK2''
   \<and> DirectoryEntry_VerifySignature sample 1700000000000000000
       (sample_entry_request ''PK2'' 1700000000000000000 ''forged'') policy_without_algorithm
       = None
   \<and> DirectoryEntries_VerifySignature sample 1700000000000000000
       (sample_list_request ''PK2'' 1700000000000000000 ''forged'') policy_without_algorithm
       = None"
  by (simp add: DirectoryEntry_VerifySignature_def DirectoryEntries_VerifySignature_def
      policy_without_algorithm_def request_defs)

text \<open>
  C5, amended: both verification functions perform their checks in this order. If any
  one of the policy's prefix, algorithm and public key is empty, verification succeeds
  whatever the request holds. Otherwise a claimed public key different from the pinned
  key fails with the key-mismatch error, whatever the timestamp; otherwise a timestamp
  outside the window fails with the timestamp-range error; and only then the result is
  that of the cryptographic check.
\<close>

theorem VerifySignature_order:
  "(Prefix info = [] \<or> ConfidentialEntry.Algorithm info = []
      \<or> ConfidentialEntry.PublicKey info = []
      \<longrightarrow> DirectoryEntries_VerifySignature ext now p info = None
        \<and> DirectoryEntry_VerifySignature ext now q info = None)
   \<and> (Prefix info \<noteq> [] \<and> ConfidentialEntry.Algorithm info \<noteq> []
        \<and> ConfidentialEntry.PublicKey info \<noteq> []
      \<longrightarrow>
        (DirectoryEntries.PublicKey p \<noteq> ConfidentialEntry.PublicKey info
           \<longrightarrow> DirectoryEntries_VerifySignature ext now p info
                 = Some (errors_New ''PublicKey not allowed''))
      \<and> (DirectoryEntries.PublicKey p = ConfidentialEntry.PublicKey info
             \<and> \<not> (now - 24 * Hour < DirectoryEntries.Timestamp p
                     \<and> DirectoryEntries.Timestamp p < now + 24 * Hour)
           \<longrightarrow> DirectoryEntries_VerifySignature ext now p info
                 = Some (errors_New ''timestamp not in time range''))
      \<and> (DirectoryEntries.PublicKey p = ConfidentialEntry.PublicKey info
             \<and> now - 24 * Hour < DirectoryEntries.Timestamp p
             \<and> DirectoryEntries.Timestamp p < now + 24 * Hour
           \<longrightarrow> DirectoryEntries_VerifySignature ext now p info
                 = confidential_VerifySignature ext info (DirectoryEntries.PublicKey p)
                     (DirectoryEntries.Name p @ ''.''
                        @ Sprint_d (DirectoryEntries.Timestamp p sdiv 1000000))
                     (DirectoryEntries.Algorithm p) (DirectoryEntries.Signature p))
      \<and> (DirectoryEntry.PublicKey q \<noteq> ConfidentialEntry.PublicKey info
           \<longrightarrow> DirectoryEntry_VerifySignature ext now q info
                 = Some (errors_New ''PublicKey not allowed''))
      \<and> (DirectoryEntry.PublicKey q = ConfidentialEntry.PublicKey info
             \<and> \<not> (now - 24 * Hour < DirectoryEntry.Timestamp q
                     \<and> DirectoryEntry.Timestamp q < now + 24 * Hour)
           \<longrightarrow> DirectoryEntry_VerifySignature ext now q info
                 = Some (errors_New ''timestamp not in time range''))
      \<and> (DirectoryEntry.PublicKey q = ConfidentialEntry.PublicKey info
             \<and> now - 24 * Hour < DirectoryEntry.Timestamp q
             \<and> DirectoryEntry.Timestamp q < now + 24 * Hour
           \<longrightarrow> DirectoryEntry_VerifySignature ext now q info
                 = confidential_VerifySignature ext info (DirectoryEntry.PublicKey q)
                     (DirectoryEntry.Name q @ ''.'' @ Sprint_d (DirectoryEntry.Timestamp q)
                        @ ''.'' @ Entry q)
                     (DirectoryEntry.Algorithm q) (DirectoryEntry.Signature q)))"
  by (simp add: DirectoryEntries_VerifySignature_def DirectoryEntry_VerifySignature_def
      timeInRange_def Let_def)

text \<open>
  C5, on the sample, for a List and an Add request alike: the default policy passes a
  forged request; under the policy of \<open>secure\<close> a foreign key is refused before the
  (stale) timestamp is looked at, a stale timestamp is refused before the (forged)
  signature is looked at, and a request that passes both gets the verdict of the
  signature primitive.
\<close>

theorem VerifySignature_order_witness:
  "DirectoryEntries_VerifySignature sample 1700000000000000000
      (sample_list_request ''PK2'' 0 ''forged'') default_policy = None
   \<and> DirectoryEntry_VerifySignature sample 1700000000000000000
      (sample_entry_request ''PK2'' 0 ''forged'') default_policy = None
   \<and> DirectoryEntries_VerifySignature sample 1700000000000000000
      (sample_list_request ''PK2'' 0 ''forged'') secure_policy
        = Some (errors_New ''PublicKey not allowed'')
   \<and> DirectoryEntry_VerifySignature sample 1700000000000000000
      (sample_entry_request ''PK2'' 0 ''forged'') secure_policy
        = Some (errors_New ''PublicKey not allowed'')
   \<and> DirectoryEntries_VerifySignature sample 1700000000000000000
      (sample_list_request ''PK1'' 0 ''forged'') secure_policy
        = Some (errors_New ''timestamp not in time range'')
   \<and> DirectoryEntry_VerifySignature sample 1700000000000000000
      (sample_entry_request ''PK1'' 0 ''forged'') secure_policy
        = Some (errors_New ''timestamp not in time range'')
   \<and> DirectoryEntries_VerifySignature sample 1700000000000000000
      (sample_list_request ''PK1'' 1700000000000000000 ''forged'') secure_policy
        = Some (errors_New ''invalid signature'')
   \<and> DirectoryEntry_VerifySignature sample 1700000000000000000
      (sample_entry_request ''PK1'' 1700000000000000000
         ''signed:secure.node.1700000000000000000.v1'')
      secure_policy = None"
  using VerifySignature_order [of default_policy sample 1700000000000000000
          "sample_list_request ''PK2'' 0 ''forged''"
          "sample_entry_request ''PK2'' 0 ''forged''"]
    VerifySignature_order [of secure_policy sample 1700000000000000000
          "sample_list_request ''PK2'' 0 ''forged''"
          "sample_entry_request ''PK2'' 0 ''forged''"]
    VerifySignature_order [of secure_policy sample 1700000000000000000
          "sample_list_request ''PK1'' 0 ''forged''"
          "sample_entry_request ''PK1'' 0 ''forged''"]
    VerifySignature_order [of secure_policy sample 1700000000000000000
          "sample_list_request ''PK1'' 1700000000000000000 ''forged''"
          "sample_entry_request ''PK1'' 1700000000000000000
             ''signed:secure.node.1700000000000000000.v1''"]
  by (simp add: sample_defs durations request_defs Sprint_d_def FormatUint_lt10
      FormatUint_ge10 digit_def signed_divide_int_def)




text \<open>
  C7, as stated, at a concrete input: under the policy of \<open>secure\<close>, whose three fields
  are set, a request with the timestamp 0 is far outside the window around
  1700000000000000000, yet with the foreign key \<open>PK2\<close> verification does not fail with the
  timestamp-range error: it fails with the key-mismatch error, which is tested first.
\<close>

theorem VerifySignature_timestamp_counterexample:
  "\<not> timeInRange (1700000000000000000 - 24 * Hour) (1700000000000000000 + 24 * Hour)
       (DirectoryEntry.Timestamp (sample_entry_request ''PK2'' 0 ''forged''))
   \<and> DirectoryEntry_VerifySignature sample 1700000000000000000
       (sample_entry_request ''PK2'' 0 ''forged'') secure_policy
     = Some (errors_New ''PublicKey not allowed'')"
  by (simp add: DirectoryEntry_VerifySignature_def sample_defs durations request_defs
      timeInRange_def)

text \<open>
  C7, amended: for every policy whose prefix, algorithm and public key are all set and
  every signed request whose timestamp does not lie strictly between now - 24h and
  now + 24h (a timestamp exactly 24 hours away included), verification fails, whatever
  the signature primitive would answer; the error is the timestamp-range error when the
  claimed public key equals the pinned key.
\<close>

theorem VerifySignature_timestamp_window:
  "Prefix info \<noteq> [] \<and> ConfidentialEntry.Algorithm info \<noteq> []
     \<and> ConfidentialEntry.PublicKey info \<noteq> []
   \<longrightarrow>
     (\<not> (now - 24 * Hour < DirectoryEntries.Timestamp p
           \<and> DirectoryEntries.Timestamp p < now + 24 * Hour)
        \<longrightarrow> DirectoryEntries_VerifySignature ext now p info \<noteq> None
          \<and> (DirectoryEntries.PublicKey p = ConfidentialEntry.PublicKey info
               \<longrightarrow> DirectoryEntries_VerifySignature ext now p info
                     = Some (errors_New ''timestamp not in time range'')))
   \<and> (\<not> (now - 24 * Hour < DirectoryEntry.Timestamp q
           \<and> DirectoryEntry.Timestamp q < now + 24 * Hour)
        \<longrightarrow> DirectoryEntry_VerifySignature ext now q info \<noteq> None
          \<and> (DirectoryEntry.PublicKey q = ConfidentialEntry.PublicKey info
               \<longrightarrow> DirectoryEntry_VerifySignature ext now q info
                     = Some (errors_New ''timestamp not in time range'')))"
  by (simp add: DirectoryEntries_VerifySignature_def DirectoryEntry_VerifySignature_def
      timeInRange_def Let_def)

text \<open>
  C7, on the sample: a List request stamped exactly 24 hours ahead and an Add request
  stamped exactly 24 hours back are refused with the timestamp-range error, although
  the signature of the Add request is one that the primitive accepts.
\<close>

theorem VerifySignature_timestamp_window_witness:
  "DirectoryEntries_VerifySignature sample 1700000000000000000
      (sample_list_request ''PK1'' (1700000000000000000 + 24 * Hour)
         ''signed:secure.node.1700086400000'')
      secure_policy = Some (errors_New ''timestamp not in time range'')
   \<and> DirectoryEntry_VerifySignature sample 1700000000000000000
      (sample_entry_request ''PK1'' (1700000000000000000 - 24 * Hour)
         ''signed:secure.node.1699913600000000000.v1'')
      secure_policy = Some (errors_New ''timestamp not in time range'')
   \<and> sample_VerifySignature secure_policy ''PK1'' ''secure.node.1699913600000000000.v1''
        ''ed25519'' ''signed:secure.node.1699913600000000000.v1'' = None"
  using VerifySignature_timestamp_window [of secure_policy 1700000000000000000
      "sample_list_request ''PK1'' (1700000000000000000 + 24 * Hour)
         ''signed:secure.node.1700086400000''"
      sample
      "sample_entry_request ''PK1'' (1700000000000000000 - 24 * Hour)
         ''signed:secure.node.1699913600000000000.v1''"]
  by (simp add: sample_defs durations request_defs)

section \<open>Request handlers: what the policy guards\<close>

text \<open>
  With the directory and the session at hand and a read-only policy, \<open>Add\<close> answers a
  failed verification with the status \<open>error\<close> and leaves the context as it is, and
  applies the store's \<open>Add\<close> after a successful one. \<open>Remove\<close> leaves the context as it
  is after a failed verification too, but returns without writing to \<open>result\<close>. \<open>List\<close>
  on a confidential namespace returns without writing to \<open>result\<close> after a failed
  verification, and answers with a slice that is not nil after a successful one.
\<close>

lemma Directory_Add_guard:
  assumes "directory ctx = Some d" and "p2p ctx = Some net"
    and "ReadOnly (GetConfidentialInfo ext (DirectoryEntry.Name args)
           (DirectoryEntry.PublicKey args))"
  shows "DirectoryEntry_VerifySignature ext now args
           (GetConfidentialInfo ext (DirectoryEntry.Name args) (DirectoryEntry.PublicKey args))
           \<noteq> None
         \<Longrightarrow> Directory_Add ext now ctx args result = (ctx, \<lparr>Status = ''error''\<rparr>)"
    and "DirectoryEntry_VerifySignature ext now args
           (GetConfidentialInfo ext (DirectoryEntry.Name args) (DirectoryEntry.PublicKey args))
           = None
         \<Longrightarrow> directory (fst (Directory_Add ext now ctx args result))
             = Some (fst (directory_Add ext d (DirectoryEntry.Name args) (Entry args)
                            (TimeToLive ext (Mode args))))"
  using assms
  by (auto simp: Directory_Add_def addToDirectory_def Let_def
      split: prod.splits option.splits)

lemma Directory_Remove_guard:
  assumes "directory ctx = Some d" and "p2p ctx = Some net"
    and "ReadOnly (GetConfidentialInfo ext (DirectoryEntry.Name args)
           (DirectoryEntry.PublicKey args))"
  shows "DirectoryEntry_VerifySignature ext now args
           (GetConfidentialInfo ext (DirectoryEntry.Name args) (DirectoryEntry.PublicKey args))
           \<noteq> None
         \<Longrightarrow> Directory_Remove ext now ctx args result = (ctx, result)"
    and "DirectoryEntry_VerifySignature ext now args
           (GetConfidentialInfo ext (DirectoryEntry.Name args) (DirectoryEntry.PublicKey args))
           = None
         \<Longrightarrow> directory (fst (Directory_Remove ext now ctx args result))
             = Some (fst (directory_Remove ext d (DirectoryEntry.Name args) (Entry args)))"
  using assms
  by (auto simp: Directory_Remove_def removeFromDirectory_def Let_def
      split: prod.splits option.splits)

lemma Directory_List_guard:
  assumes "directory ctx = Some d"
    and "Confidential (GetConfidentialInfo ext (DirectoryEntries.Name args)
           (DirectoryEntries.PublicKey args))"
  shows "DirectoryEntries_VerifySignature ext now args
           (GetConfidentialInfo ext (DirectoryEntries.Name args)
              (DirectoryEntries.PublicKey args)) \<noteq> None
         \<Longrightarrow> Directory_List ext now rnd ctx args result = result"
    and "DirectoryEntries_VerifySignature ext now args
           (GetConfidentialInfo ext (DirectoryEntries.Name args)
              (DirectoryEntries.PublicKey args)) = None
         \<Longrightarrow> directory_List ext d (DirectoryEntries.Name args) = (entries, None)
         \<Longrightarrow> Entries (Directory_List ext now rnd ctx args result) \<noteq> None"
  using assms
  by (auto simp: Directory_List_def Let_def split: prod.splits option.splits)

text \<open>
  C1, at a concrete request: the namespace \<open>secure.node\<close> is read-only and pinned to
  \<open>PK1\<close>; the request claims \<open>PK2\<close> with a forged signature. \<open>Add\<close> leaves the store
  unchanged and answers \<open>error\<close>. \<open>Remove\<close>, in both revisions of the file, leaves the
  store unchanged as well, but the response keeps the zero value that the caller
  allocated: its status is the empty string, not \<open>error\<close>.
\<close>

theorem Directory_Remove_rejected_status:
  "Directory_Add sample 1700000000000000000 secure_context
     (sample_entry_request ''PK2'' 1700000000000000000 ''forged'') \<lparr>Status = []\<rparr>
     = (secure_context, \<lparr>Status = ''error''\<rparr>)
   \<and> Directory_Add_0 sample 1700000000000000000 secure_context
     (sample_entry_request ''PK2'' 1700000000000000000 ''forged'') \<lparr>Status = []\<rparr>
     = (secure_context, \<lparr>Status = ''error''\<rparr>)
   \<and> Directory_Remove sample 1700000000000000000 secure_context
     (sample_entry_request ''PK2'' 1700000000000000000 ''forged'') \<lparr>Status = []\<rparr>
     = (secure_context, \<lparr>Status = []\<rparr>)
   \<and> Directory_Remove_0 sample 1700000000000000000 secure_context
     (sample_entry_request ''PK2'' 1700000000000000000 ''forged'') \<lparr>Status = []\<rparr>
     = (secure_context, \<lparr>Status = []\<rparr>)"
  by (simp add: Directory_Add_def Directory_Add_0_def Directory_Remove_def
      Directory_Remove_0_def DirectoryEntry_VerifySignature_def sample_defs request_defs)

text \<open>
  C2, at a concrete request: the namespace \<open>secure.node\<close> is confidential and the store
  holds the value \<open>v1\<close> for it; the request claims \<open>PK2\<close> with a forged signature.
  \<open>List\<close> returns before it writes to \<open>result\<close>, so the entries of the response stay the
  nil slice of the zero value that the caller allocated, not an empty slice.
\<close>

theorem Directory_List_rejected_entries:
  "memory_List [(''secure.node'', ''v1'')] ''secure.node'' = (Some [''v1''], None)
   \<and> Entries (Directory_List sample 1700000000000000000 zero_source secure_context
       (sample_list_request ''PK2'' 1700000000000000000 ''forged'')
       \<lparr>DirectoryEntriesResponse.Name = [], Entries = None\<rparr>) = None"
  by (simp add: Directory_List_def DirectoryEntries_VerifySignature_def sample_defs
      request_defs)

text \<open>
  C8: for a \<open>List\<close> call that finds the directory, passes the policy check and fetches
  \<open>entries\<close> without error: if the limit is positive and below the number of fetched
  entries, the response holds the first \<open>limit\<close> entries of a shuffle of the fetched
  slice, the shuffle being a permutation of it, so exactly \<open>limit\<close> entries, each of
  them fetched (and none more often than it was fetched); otherwise the response holds
  all the fetched entries, in the order fetched.
\<close>

theorem Directory_List_limit:
  assumes "directory ctx = Some d"
    and "\<not> Confidential (GetConfidentialInfo ext (DirectoryEntries.Name args)
              (DirectoryEntries.PublicKey args))
         \<or> DirectoryEntries_VerifySignature ext now args
              (GetConfidentialInfo ext (DirectoryEntries.Name args)
                 (DirectoryEntries.PublicKey args)) = None"
    and "directory_List ext d (DirectoryEntries.Name args) = (entries, None)"
  shows "(0 < Limit args \<and> Limit args < int (len entries)
          \<longrightarrow> (\<exists>xs ys. entries = Some xs
                 \<and> Entries (Directory_List ext now rnd ctx args result) = Some ys
                 \<and> ys = take (nat (Limit args)) (Shuffle rnd xs)
                 \<and> mset (Shuffle rnd xs) = mset xs
                 \<and> int (length ys) = Limit args
                 \<and> set ys \<subseteq> set xs
                 \<and> mset ys \<subseteq># mset xs))
       \<and> (\<not> (0 < Limit args \<and> Limit args < int (len entries))
          \<longrightarrow> Entries (Directory_List ext now rnd ctx args result)
                = Some (case entries of None \<Rightarrow> [] | Some xs \<Rightarrow> xs))"
proof (intro conjI impI)
  assume lim: "0 < Limit args \<and> Limit args < int (len entries)"
  then obtain xs where xs: "entries = Some xs"
    by (cases entries) (auto simp: len_def)
  let ?ys = "take (nat (Limit args)) (Shuffle rnd xs)"
  have res: "Entries (Directory_List ext now rnd ctx args result) = Some ?ys"
    using assms lim xs by (auto simp: Directory_List_def Let_def)
  have n: "int (length ?ys) = Limit args"
    using lim xs by (auto simp: len_def length_Shuffle)
  have sub: "mset ?ys \<subseteq># mset xs"
    using mset_take_le [of "nat (Limit args)" "Shuffle rnd xs"] by (simp add: Shuffle_perm)
  then have "set ?ys \<subseteq> set xs"
    by (rule set_mset_mono [of "mset ?ys" "mset xs", simplified])
  with xs res n sub
  show "\<exists>xs ys. entries = Some xs
          \<and> Entries (Directory_List ext now rnd ctx args result) = Some ys
          \<and> ys = take (nat (Limit args)) (Shuffle rnd xs)
          \<and> mset (Shuffle rnd xs) = mset xs
          \<and> int (length ys) = Limit args
          \<and> set ys \<subseteq> set xs
          \<and> mset ys \<subseteq># mset xs"
    using Shuffle_perm [of rnd xs] by blast
next
  assume "\<not> (0 < Limit args \<and> Limit args < int (len entries))"
  then show "Entries (Directory_List ext now rnd ctx args result)
                = Some (case entries of None \<Rightarrow> [] | Some xs \<Rightarrow> xs)"
    using assms by (cases entries) (auto simp: Directory_List_def Let_def)
qed

text \<open>
  C8, on the sample: of the three values under \<open>pairing\<close>, a limit of 2 returns two
  (with the random source that always draws 0), and a limit of 3 returns all three.
\<close>

theorem Directory_List_limit_witness:
  "Entries (Directory_List sample 1700000000000000000 zero_source
      \<lparr>directory = Some pairing_store, p2p = Some []\<rparr> (pairing_list_request 2)
      \<lparr>DirectoryEntriesResponse.Name = [], Entries = None\<rparr>) = Some [''b'', ''c'']
   \<and> Entries (Directory_List sample 1700000000000000000 zero_source
      \<lparr>directory = Some pairing_store, p2p = Some []\<rparr> (pairing_list_request 3)
      \<lparr>DirectoryEntriesResponse.Name = [], Entries = None\<rparr>) = Some [''a'', ''b'', ''c'']"
  using Directory_List_limit [of "\<lparr>directory = Some pairing_store, p2p = Some []\<rparr>"
      pairing_store sample "pairing_list_request 2"
      1700000000000000000 "Some [''a'', ''b'', ''c'']" zero_source
      "\<lparr>DirectoryEntriesResponse.Name = [], Entries = None\<rparr>"]
    Directory_List_limit [of "\<lparr>directory = Some pairing_store, p2p = Some []\<rparr>"
      pairing_store sample "pairing_list_request 3"
      1700000000000000000 "Some [''a'', ''b'', ''c'']" zero_source
      "\<lparr>DirectoryEntriesResponse.Name = [], Entries = None\<rparr>"]
  by (simp add: sample_defs pairing_list_request_def pairing_store_def zero_source_def
      len_def Shuffle_def numeral_2_eq_2 swap_def)

section \<open>The replicator loop: liveness and inbound writes\<close>

lemma loop_stopped: "status s \<noteq> Running \<Longrightarrow> StartP2PDirectory_loop ext s evs = s"
  by (cases evs) simp_all

lemma loop_append:
  "StartP2PDirectory_loop ext s (xs @ ys)
     = StartP2PDirectory_loop ext (StartP2PDirectory_loop ext s xs) ys"
proof (induction xs arbitrary: s)
  case Nil
  show ?case by simp
next
  case (Cons x xs)
  show ?case
  proof (cases "status s = Running")
    case True
    then show ?thesis by (simp add: Cons.IH)
  next
    case False
    then show ?thesis by (simp add: loop_stopped)
  qed
qed

lemma loop_body_timeoutDelay:
  "timeoutDelay (loop_body ext s te) = timeoutDelay s
     \<or> timeoutDelay (loop_body ext s te) = 3 * Minute"
  by (cases te; cases "snd te")
    (auto simp: loop_body_def split: sum.splits)

lemma loop_timeoutDelay:
  "timeoutDelay (StartP2PDirectory_loop ext s evs) = timeoutDelay s
     \<or> timeoutDelay (StartP2PDirectory_loop ext s evs) = 3 * Minute"
proof (induction evs arbitrary: s)
  case Nil
  show ?case by simp
next
  case (Cons e evs)
  show ?case
    using Cons.IH [of "loop_body ext s e"] loop_body_timeoutDelay [of ext s e]
    by auto
qed

lemma loop_timeoutDelay_short:
  "timeoutDelay s = 3 * Minute \<Longrightarrow> timeoutDelay (StartP2PDirectory_loop ext s evs) = 3 * Minute"
  using loop_timeoutDelay [of ext s evs] by auto

lemma loop_body_lastHeartbeat:
  "lastHeartbeatTimestamp s \<le> tlast \<Longrightarrow> (is_message (snd te) \<Longrightarrow> fst te \<le> tlast)
     \<Longrightarrow> lastHeartbeatTimestamp (loop_body ext s te) \<le> tlast"
  by (cases te; cases "snd te")
    (auto simp: loop_body_def split: sum.splits)

lemma loop_lastHeartbeat:
  "lastHeartbeatTimestamp s \<le> tlast \<Longrightarrow> \<forall>te \<in> set evs. is_message (snd te) \<longrightarrow> fst te \<le> tlast
     \<Longrightarrow> lastHeartbeatTimestamp (StartP2PDirectory_loop ext s evs) \<le> tlast"
proof (induction evs arbitrary: s)
  case Nil
  then show ?case by simp
next
  case (Cons e evs)
  have "lastHeartbeatTimestamp (loop_body ext s e) \<le> tlast"
    using Cons.prems by (intro loop_body_lastHeartbeat) auto
  then have "lastHeartbeatTimestamp (StartP2PDirectory_loop ext (loop_body ext s e) evs) \<le> tlast"
    using Cons.prems by (intro Cons.IH) auto
  then show ?case using Cons.prems by simp
qed

lemma StartP2PDirectory_Some:
  "StartP2PDirectory ctx bootstrap room t0 = Some s0
     \<Longrightarrow> timeoutDelay s0 = 15 * Minute \<and> lastHeartbeatTimestamp s0 = t0 \<and> status s0 = Running"
  by (auto simp: StartP2PDirectory_def split: if_splits option.splits)

text \<open>
  C4: the loop starts with a timeout window of 15 minutes; a heartbeat sets the window
  to 3 minutes; once at 3 minutes it stays there whatever events follow, so along a run
  the window is 15 or 3 minutes and never grows. If every message so far arrived no
  later than \<open>tlast\<close> (and the loop started no later), the loop still runs, and the timer
  fires at an instant more than the current window after \<open>tlast\<close>, then the loop exits
  the process on that tick.
\<close>

theorem replicator_timeout_window:
  "(StartP2PDirectory ctx bootstrap room t0 = Some s0
      \<longrightarrow> timeoutDelay s0 = 15 * Minute \<and> lastHeartbeatTimestamp s0 = t0
          \<and> status s0 = Running)
   \<and> (ParsePayload ext m = Inr args \<and> DirectoryEntry.Name args = ''p2p.heartbeat''
      \<longrightarrow> timeoutDelay (loop_body ext s (now, OnMessage m)) = 3 * Minute)
   \<and> (timeoutDelay s = 3 * Minute
      \<longrightarrow> timeoutDelay (StartP2PDirectory_loop ext s evs) = 3 * Minute)
   \<and> (StartP2PDirectory ctx bootstrap room t0 = Some s0
      \<longrightarrow> (timeoutDelay (StartP2PDirectory_loop ext s0 evs) = 15 * Minute
            \<or> timeoutDelay (StartP2PDirectory_loop ext s0 evs) = 3 * Minute)
          \<and> timeoutDelay (StartP2PDirectory_loop ext s0 (evs @ evs'))
              \<le> timeoutDelay (StartP2PDirectory_loop ext s0 evs))
   \<and> (StartP2PDirectory ctx bootstrap room t0 = Some s0
        \<and> t0 \<le> tlast \<and> (\<forall>te \<in> set evs. is_message (snd te) \<longrightarrow> fst te \<le> tlast)
        \<and> status (StartP2PDirectory_loop ext s0 evs) = Running
        \<and> timeoutDelay (StartP2PDirectory_loop ext s0 evs) < now - tlast
      \<longrightarrow> status (StartP2PDirectory_loop ext s0 (evs @ [(now, After30s)])) = Exited)"
proof (intro conjI impI)
  assume "StartP2PDirectory ctx bootstrap room t0 = Some s0"
  then show "timeoutDelay s0 = 15 * Minute" "lastHeartbeatTimestamp s0 = t0"
    "status s0 = Running"
    using StartP2PDirectory_Some [of ctx bootstrap room t0 s0] by simp_all
next
  assume "ParsePayload ext m = Inr args \<and> DirectoryEntry.Name args = ''p2p.heartbeat''"
  then show "timeoutDelay (loop_body ext s (now, OnMessage m)) = 3 * Minute"
    by (simp add: loop_body_def)
next
  assume "timeoutDelay s = 3 * Minute"
  then show "timeoutDelay (StartP2PDirectory_loop ext s evs) = 3 * Minute"
    by (rule loop_timeoutDelay_short)
next
  assume "StartP2PDirectory ctx bootstrap room t0 = Some s0"
  then have s0: "timeoutDelay s0 = 15 * Minute"
    using StartP2PDirectory_Some [of ctx bootstrap room t0 s0] by simp
  then show "timeoutDelay (StartP2PDirectory_loop ext s0 evs) = 15 * Minute
            \<or> timeoutDelay (StartP2PDirectory_loop ext s0 evs) = 3 * Minute"
    using loop_timeoutDelay [of ext s0 evs] by simp
  then show "timeoutDelay (StartP2PDirectory_loop ext s0 (evs @ evs'))
              \<le> timeoutDelay (StartP2PDirectory_loop ext s0 evs)"
    using loop_timeoutDelay [of ext "StartP2PDirectory_loop ext s0 evs" evs']
    by (auto simp: loop_append Minute_def Second_def)
next
  assume a: "StartP2PDirectory ctx bootstrap room t0 = Some s0
        \<and> t0 \<le> tlast \<and> (\<forall>te \<in> set evs. is_message (snd te) \<longrightarrow> fst te \<le> tlast)
        \<and> status (StartP2PDirectory_loop ext s0 evs) = Running
        \<and> timeoutDelay (StartP2PDirectory_loop ext s0 evs) < now - tlast"
  let ?s = "StartP2PDirectory_loop ext s0 evs"
  have l0: "lastHeartbeatTimestamp s0 \<le> tlast"
    using a StartP2PDirectory_Some [of ctx bootstrap room t0 s0] by simp
  have quiet: "\<forall>te \<in> set evs. is_message (snd te) \<longrightarrow> fst te \<le> tlast"
    using a by simp
  from l0 quiet have "lastHeartbeatTimestamp ?s \<le> tlast"
    by (rule loop_lastHeartbeat)
  then have "timeoutDelay ?s < now - lastHeartbeatTimestamp ?s"
    using a by linarith
  then have "status (loop_body ext ?s (now, After30s)) = Exited"
    by (simp add: loop_body_def)
  then show "status (StartP2PDirectory_loop ext s0 (evs @ [(now, After30s)])) = Exited"
    using a by (simp add: loop_append)
qed

text \<open>
  C4, on the sample: started at 1700000000000000000 the window is 15 minutes; a
  heartbeat 10 seconds later sets it to 3 minutes, where it stays after a further
  message; with nothing else arriving, the tick 210 seconds after the heartbeat exits.
\<close>

theorem replicator_timeout_window_witness:
  "StartP2PDirectory secure_context ''seed.example:4242'' ''samourai'' 1700000000000000000
      = Some sample_replicator
   \<and> timeoutDelay sample_replicator = 15 * Minute
   \<and> timeoutDelay (StartP2PDirectory_loop sample sample_replicator
         [(1700000000000000000 + 10 * Second, OnMessage heartbeat_message)]) = 3 * Minute
   \<and> timeoutDelay (StartP2PDirectory_loop sample sample_replicator
         ([(1700000000000000000 + 10 * Second, OnMessage heartbeat_message)]
          @ [(1700000000000000000 + 20 * Second, OnMessage add_message)])) = 3 * Minute
   \<and> status (StartP2PDirectory_loop sample sample_replicator
         ([(1700000000000000000 + 10 * Second, OnMessage heartbeat_message)]
          @ [(1700000000000000000 + 220 * Second, After30s)])) = Exited"
  using replicator_timeout_window [where ctx = secure_context
      and bootstrap = "''seed.example:4242''" and room = "''samourai''"
      and ?t0.0 = 1700000000000000000 and ?s0.0 = sample_replicator and ext = sample
      and m = heartbeat_message
      and args = "\<lparr>DirectoryEntry.Name = ''p2p.heartbeat'', Entry = ''1700000000'',
               Mode = ''short'', DirectoryEntry.PublicKey = [], DirectoryEntry.Algorithm = [],
               DirectoryEntry.Signature = [], DirectoryEntry.Timestamp = 0\<rparr>"
      and s = "StartP2PDirectory_loop sample sample_replicator
         [(1700000000000000000 + 10 * Second, OnMessage heartbeat_message)]"
      and now = "1700000000000000000 + 220 * Second"
      and evs = "[(1700000000000000000 + 10 * Second, OnMessage heartbeat_message)]"
      and evs' = "[(1700000000000000000 + 20 * Second, OnMessage add_message)]"
      and tlast = "1700000000000000000 + 10 * Second"]
  by (simp add: StartP2PDirectory_def sample_defs request_defs message_defs loop_body_def
      durations)

text \<open>
  C3: an inbound message whose payload parses and is not a heartbeat is applied to the
  store directly: under the context \<open>Directory.Add\<close> by the store's \<open>Add\<close> with the time
  to live resolved from the payload's mode, under \<open>Directory.Remove\<close> by the store's
  \<open>Remove\<close> of the payload's value. The step is the same whatever the policy registry
  and the signature primitive are: neither is consulted.
\<close>

theorem loop_body_applies_gossip:
  "ParsePayload ext m = Inr args \<and> DirectoryEntry.Name args \<noteq> ''p2p.heartbeat''
   \<longrightarrow>
     (Context m = ''Directory.Add''
        \<longrightarrow> loop_body ext s (now, OnMessage m)
              = s\<lparr>store := fst (directory_Add ext (store s) (DirectoryEntry.Name args)
                                 (Entry args) (TimeToLive ext (Mode args)))\<rparr>)
   \<and> (Context m = ''Directory.Remove''
        \<longrightarrow> loop_body ext s (now, OnMessage m)
              = s\<lparr>store := fst (directory_Remove ext (store s) (DirectoryEntry.Name args)
                                 (Entry args))\<rparr>)
   \<and> loop_body (ext\<lparr>GetConfidentialInfo := g, confidential_VerifySignature := v\<rparr>) s
         (now, OnMessage m)
       = loop_body ext s (now, OnMessage m)"
  by (simp add: loop_body_def addToDirectory_def removeFromDirectory_def)

text \<open>
  C3, on the sample: the handler refuses an unsigned \<open>Add\<close> of \<open>xyz\<close> to the read-only
  namespace \<open>secure.node\<close>, while the same write arriving as gossip is stored, and a
  gossiped \<open>Remove\<close> deletes the stored value.
\<close>

theorem loop_body_applies_gossip_witness:
  "snd (Directory_Add sample 1700000000000000000 secure_context
          \<lparr>DirectoryEntry.Name = ''secure.node'', Entry = ''xyz'', Mode = ''short'',
           DirectoryEntry.PublicKey = [], DirectoryEntry.Algorithm = [],
           DirectoryEntry.Signature = [], DirectoryEntry.Timestamp = 0\<rparr>
          \<lparr>Status = []\<rparr>) = \<lparr>Status = ''error''\<rparr>
   \<and> store (loop_body sample sample_replicator (1700000000000000000, OnMessage add_message))
       = [(''secure.node'', ''v1''), (''secure.node'', ''xyz'')]
   \<and> store (loop_body sample sample_replicator (1700000000000000000, OnMessage remove_message))
       = []"
  using loop_body_applies_gossip [where ext = sample and m = add_message
      and args = "\<lparr>DirectoryEntry.Name = ''secure.node'', Entry = ''xyz'', Mode = ''short'',
               DirectoryEntry.PublicKey = [], DirectoryEntry.Algorithm = [],
               DirectoryEntry.Signature = [], DirectoryEntry.Timestamp = 0\<rparr>"
      and s = sample_replicator and now = 1700000000000000000
      and g = sample_GetConfidentialInfo and v = sample_VerifySignature]
    loop_body_applies_gossip [where ext = sample and m = remove_message
      and args = "\<lparr>DirectoryEntry.Name = ''secure.node'', Entry = ''v1'', Mode = ''short'',
               DirectoryEntry.PublicKey = [], DirectoryEntry.Algorithm = [],
               DirectoryEntry.Signature = [], DirectoryEntry.Timestamp = 0\<rparr>"
      and s = sample_replicator and now = 1700000000000000000
      and g = sample_GetConfidentialInfo and v = sample_VerifySignature]
  by (simp add: Directory_Add_def DirectoryEntry_VerifySignature_def sample_defs request_defs
      message_defs remove_message_def durations)

text \<open>
  C9, as stated, at a concrete input: a message whose context is \<open>p2p.heartbeat\<close> and
  whose payload names the namespace \<open>pairing\<close> is not taken for a heartbeat: ten
  minutes after the start the loop leaves its state as it was, the time of the last
  heartbeat and the 15-minute window included.
\<close>

theorem heartbeat_context_counterexample:
  "Context stray_message = ''p2p.heartbeat''
   \<and> loop_body sample sample_replicator (1700000000000000000 + 600 * Second,
         OnMessage stray_message)
       = sample_replicator
   \<and> lastHeartbeatTimestamp (loop_body sample sample_replicator
         (1700000000000000000 + 600 * Second, OnMessage stray_message)) = 1700000000000000000
   \<and> timeoutDelay (loop_body sample sample_replicator
         (1700000000000000000 + 600 * Second, OnMessage stray_message)) = 15 * Minute"
  by (simp add: sample_defs message_defs stray_message_def loop_body_def)

text \<open>
  C9, amended: the loop recognises a heartbeat in one form only, by the name
  \<open>p2p.heartbeat\<close> in the parsed payload, whatever the context of the message: then it
  sets the time of the last heartbeat to now and the window to 3 minutes. A message
  whose payload has another name leaves both unchanged, also when its context is
  \<open>p2p.heartbeat\<close>, and so does a payload that does not parse.
\<close>

theorem heartbeat_recognition:
  "(ParsePayload ext m = Inr args \<and> DirectoryEntry.Name args = ''p2p.heartbeat''
      \<longrightarrow> timeoutDelay (loop_body ext s (now, OnMessage m)) = 3 * Minute
        \<and> lastHeartbeatTimestamp (loop_body ext s (now, OnMessage m)) = now)
   \<and> (ParsePayload ext m = Inr args \<and> DirectoryEntry.Name args \<noteq> ''p2p.heartbeat''
      \<longrightarrow> timeoutDelay (loop_body ext s (now, OnMessage m)) = timeoutDelay s
        \<and> lastHeartbeatTimestamp (loop_body ext s (now, OnMessage m))
            = lastHeartbeatTimestamp s)
   \<and> (ParsePayload ext m = Inl e \<longrightarrow> loop_body ext s (now, OnMessage m) = s)"
  by (simp add: loop_body_def)

text \<open>
  C9, on the sample: the heartbeat payload under the context \<open>Directory.Add\<close> is
  recognised, the context \<open>p2p.heartbeat\<close> over an ordinary payload is not, and a payload
  that does not parse changes nothing.
\<close>

theorem heartbeat_recognition_witness:
  "timeoutDelay (loop_body sample sample_replicator
      (1700000000000000000 + 600 * Second, OnMessage heartbeat_message)) = 3 * Minute
   \<and> lastHeartbeatTimestamp (loop_body sample sample_replicator
      (1700000000000000000 + 600 * Second, OnMessage heartbeat_message))
       = 1700000000000000000 + 600 * Second
   \<and> timeoutDelay (loop_body sample sample_replicator
      (1700000000000000000 + 600 * Second, OnMessage stray_message)) = 15 * Minute
   \<and> loop_body sample sample_replicator
      (1700000000000000000 + 600 * Second, OnMessage \<lparr>Context = ''Directory.Add'', Payload = ''junk''\<rparr>)
       = sample_replicator"
  using heartbeat_recognition [where ext = sample and m = heartbeat_message
      and args = "\<lparr>DirectoryEntry.Name = ''p2p.heartbeat'', Entry = ''1700000000'',
               Mode = ''short'', DirectoryEntry.PublicKey = [], DirectoryEntry.Algorithm = [],
               DirectoryEntry.Signature = [], DirectoryEntry.Timestamp = 0\<rparr>"
      and s = sample_replicator and now = "1700000000000000000 + 600 * Second"
      and e = "errors_New ''malformed payload''"]
    heartbeat_recognition [where ext = sample and m = stray_message
      and args = "\<lparr>DirectoryEntry.Name = ''pairing'', Entry = ''xyz'',
               Mode = ''short'', DirectoryEntry.PublicKey = [], DirectoryEntry.Algorithm = [],
               DirectoryEntry.Signature = [], DirectoryEntry.Timestamp = 0\<rparr>"
      and s = sample_replicator and now = "1700000000000000000 + 600 * Second"
      and e = "errors_New ''malformed payload''"]
    heartbeat_recognition [where ext = sample
      and m = "\<lparr>Context = ''Directory.Add'', Payload = ''junk''\<rparr>"
      and args = "\<lparr>DirectoryEntry.Name = ''pairing'', Entry = ''xyz'',
               Mode = ''short'', DirectoryEntry.PublicKey = [], DirectoryEntry.Algorithm = [],
               DirectoryEntry.Signature = [], DirectoryEntry.Timestamp = 0\<rparr>"
      and s = sample_replicator and now = "1700000000000000000 + 600 * Second"
      and e = "errors_New ''malformed payload''"]
  by (simp add: sample_defs message_defs stray_message_def durations)

text \<open>
  C10: a message whose parsed payload is named \<open>p2p.heartbeat\<close> changes the window and
  the time of the last heartbeat and nothing else: the store, the messages sent and the
  status are as before, and the step is the same whatever the store's \<open>Add\<close> and
  \<open>Remove\<close> are, so neither is called. The heartbeat that the loop itself publishes on a
  tick goes out under the context \<open>Directory.Add\<close> with that name.
\<close>

theorem heartbeat_frame:
  "(ParsePayload ext m = Inr args \<and> DirectoryEntry.Name args = ''p2p.heartbeat''
      \<longrightarrow> loop_body ext s (now, OnMessage m)
            = s\<lparr>timeoutDelay := 3 * Minute, lastHeartbeatTimestamp := now\<rparr>
        \<and> store (loop_body ext s (now, OnMessage m)) = store s
        \<and> sent (loop_body ext s (now, OnMessage m)) = sent s
        \<and> status (loop_body ext s (now, OnMessage m)) = status s
        \<and> loop_body (ext\<lparr>directory_Add := a, directory_Remove := r\<rparr>) s (now, OnMessage m)
            = loop_body ext s (now, OnMessage m))
   \<and> (\<not> timeoutDelay s < now - lastHeartbeatTimestamp s
      \<longrightarrow> sent (loop_body ext s (now, After30s))
            = sent s @ [(''Directory.Add'',
                 \<lparr>DirectoryEntry.Name = ''p2p.heartbeat'', Entry = Sprint_d (now div Second),
                  Mode = ''short'', DirectoryEntry.PublicKey = [],
                  DirectoryEntry.Algorithm = [], DirectoryEntry.Signature = [],
                  DirectoryEntry.Timestamp = 0\<rparr>)]
        \<and> store (loop_body ext s (now, After30s)) = store s)"
  by (simp add: loop_body_def)

text \<open>
  C10, on the sample: a heartbeat received under the context \<open>Directory.Add\<close> leaves
  the store with its one value, and the heartbeat published on a tick is an entry named
  \<open>p2p.heartbeat\<close> under the context \<open>Directory.Add\<close>.
\<close>

theorem heartbeat_frame_witness:
  "Context heartbeat_message = ''Directory.Add''
   \<and> loop_body sample sample_replicator
        (1700000000000000000 + 600 * Second, OnMessage heartbeat_message)
      = \<lparr>timeoutDelay = 3 * Minute,
         lastHeartbeatTimestamp = 1700000000000000000 + 600 * Second,
         store = [(''secure.node'', ''v1'')], sent = [], status = Running\<rparr>
   \<and> sent (loop_body sample sample_replicator (1700000000000000000 + 600 * Second, After30s))
      = [(''Directory.Add'',
          \<lparr>DirectoryEntry.Name = ''p2p.heartbeat'', Entry = ''1700000600'',
           Mode = ''short'', DirectoryEntry.PublicKey = [],
           DirectoryEntry.Algorithm = [], DirectoryEntry.Signature = [],
           DirectoryEntry.Timestamp = 0\<rparr>)]"
  using heartbeat_frame [where ext = sample and m = heartbeat_message
      and args = "\<lparr>DirectoryEntry.Name = ''p2p.heartbeat'', Entry = ''1700000000'',
               Mode = ''short'', DirectoryEntry.PublicKey = [], DirectoryEntry.Algorithm = [],
               DirectoryEntry.Signature = [], DirectoryEntry.Timestamp = 0\<rparr>"
      and s = sample_replicator and now = "1700000000000000000 + 600 * Second"
      and a = memory_Add and r = memory_Remove]
  by (simp add: sample_defs message_defs durations Sprint_d_def FormatUint_lt10
      FormatUint_ge10 digit_def)

end
